theory Spec2Isabelle
  imports Complex_Main
begin

section \<open>R vectors and matrices\<close>

text \<open>
  The kernel \<^verbatim>\<open>src/cover.cpp\<close> works on Rcpp vectors and matrices. A \<^verbatim>\<open>NumericVector\<close> is a
  list of doubles, an \<^verbatim>\<open>IntegerVector\<close> a list of C ints, a \<^verbatim>\<open>LogicalVector\<close> a list of truth
  values. Doubles are modelled by \<open>real\<close>: every arithmetic operation is exact, and the
  values \<^verbatim>\<open>NA\<close>, \<^verbatim>\<open>NaN\<close> and the infinities are not members of the type. C ints are modelled
  by \<open>int\<close>; the one distinguished value is \<^verbatim>\<open>NA_INTEGER\<close>, which R represents by the
  smallest 32-bit integer.
\<close>

type_synonym NumericVector = "real list"
type_synonym IntegerVector = "int list"
type_synonym LogicalVector = "bool list"

text \<open>
  A matrix keeps its number of columns (a matrix without rows still has one) and its
  rows. \<open>cell m i j\<close> is \<^verbatim>\<open>m(i, j)\<close>, \<open>row m i\<close> is \<^verbatim>\<open>m(i, _)\<close> and \<open>column m j\<close> is
  \<^verbatim>\<open>m.column(j)\<close>. Rcpp checks the index of a row or column view when the view is made and
  throws \<^verbatim>\<open>index_out_of_bounds\<close>; that check is written out where a function makes a view
  whose index its loops do not bound. Element access is not checked.
\<close>

record 'a Matrix =
  ncol :: nat
  rows :: "'a list list"

definition nrow :: "'a Matrix \<Rightarrow> nat" where
  "nrow m = length (rows m)"

definition row :: "'a Matrix \<Rightarrow> nat \<Rightarrow> 'a list" where
  "row m i = rows m ! i"

definition cell :: "'a Matrix \<Rightarrow> nat \<Rightarrow> nat \<Rightarrow> 'a" where
  "cell m i j = row m i ! j"

definition column :: "'a Matrix \<Rightarrow> nat \<Rightarrow> 'a list" where
  "column m j = map (\<lambda>i. cell m i j) [0..<nrow m]"



datatype error = DimensionMismatch | LengthError | IndexOutOfBounds | NegativeLength | BufferOverrun

section \<open>The functions of cover.cpp\<close>

subsection \<open>which_true\<close>

text \<open>
  \<^verbatim>\<open>for(int i = 0; i < nx; i++) { if (x[i]) y.push_back(i+1); }\<close>
\<close>

definition which_true :: "LogicalVector \<Rightarrow> IntegerVector" where
  "which_true x =
     (let nx = length x
      in fold (\<lambda>i y. if x ! i then y @ [int i + 1] else y) [0..<nx] [])"

subsection \<open>valid_pairs\<close>





subsection \<open>Rcpp sugar on vectors\<close>

text \<open>
  The element-wise operators of Rcpp sugar take their length from the left operand and
  read the right operand at the same index without a check. \<open>1.0 - v\<close>, \<open>v / 2.0\<close> and
  \<open>v - 1\<close> with a scalar are plain \<open>map\<close>s.
\<close>

definition vec_op :: "('a \<Rightarrow> 'b \<Rightarrow> 'c) \<Rightarrow> 'a list \<Rightarrow> 'b list \<Rightarrow> 'c list" where
  "vec_op f a b = map (\<lambda>k. f (a ! k) (b ! k)) [0..<length a]"

definition as_NumericVector :: "IntegerVector \<Rightarrow> NumericVector" where
  "as_NumericVector v = map real_of_int v"

text \<open>
  The range check that four functions repeat: \<open>level_set_test\<close> is reset to all true
  and, for each dimension \<open>d_i < d\<close>, combined with the vectorised comparison of column
  \<open>d_i\<close> of the points against a lower and an upper bound,
  \<^verbatim>\<open>level_set_test & ((x.column(d_i) >= lo) & (x.column(d_i) <= hi))\<close>.
  The callers differ in the bounds \<open>lo d_i\<close> and \<open>hi d_i\<close> only.
\<close>

definition range_checks ::
  "real Matrix \<Rightarrow> nat \<Rightarrow> (nat \<Rightarrow> real) \<Rightarrow> (nat \<Rightarrow> real) \<Rightarrow> LogicalVector" where
  "range_checks x d lo hi =
     fold (\<lambda>d_i level_set_test.
             vec_op (\<and>) level_set_test
               (vec_op (\<and>) (map (\<lambda>v. v \<ge> lo d_i) (column x d_i))
                           (map (\<lambda>v. v \<le> hi d_i) (column x d_i))))
          [0..<d] (replicate (nrow x) True)"

subsection \<open>constructLevelSetIndex\<close>

definition DBL_EPSILON :: real where
  "DBL_EPSILON = 1 / 2 ^ 52"

text \<open>\<^verbatim>\<open>res[level_set_test] = v\<close>: the entries selected by the logical vector are overwritten.\<close>

definition assign_where :: "IntegerVector \<Rightarrow> LogicalVector \<Rightarrow> int \<Rightarrow> IntegerVector" where
  "assign_where res level_set_test v =
     map (\<lambda>p. if level_set_test ! p then v else res ! p) [0..<length res]"

definition constructLevelSetIndex :: "real Matrix \<Rightarrow> real Matrix \<Rightarrow> error + IntegerVector" where
  "constructLevelSetIndex x bnds =
     (if ncol x \<noteq> ncol bnds div 2 then Inl DimensionMismatch
      else
        let n_level_sets = nrow bnds; d = ncol bnds div 2;
            eps = DBL_EPSILON
        in Inr (fold (\<lambda>i res.
                       let ls_bnds = row bnds i;
                           level_set_test =
                             range_checks x d (\<lambda>d_i. ls_bnds ! d_i - eps)
                                              (\<lambda>d_i. ls_bnds ! (d + d_i) + eps)
                       in assign_where res level_set_test (int i + 1))
                     [0..<n_level_sets] (replicate (nrow x) (- 1))))"

subsection \<open>constructIsoAlignedLevelSets\<close>

text \<open>
  An element of the returned list: the integer vector of point positions and its
  \<^verbatim>\<open>bounds\<close> attribute, present when \<^verbatim>\<open>save_bounds\<close> is set. The loop fills slot \<open>i\<close> of the
  list in its \<open>i\<close>-th iteration.
\<close>

record iso_level_set =
  points :: IntegerVector
  bounds_attr :: "NumericVector option"

definition constructIsoAlignedLevelSets ::
  "real Matrix \<Rightarrow> real Matrix \<Rightarrow> bool \<Rightarrow> error + iso_level_set list" where
  "constructIsoAlignedLevelSets x bnds save_bounds =
     (if ncol x \<noteq> ncol bnds div 2 then Inl DimensionMismatch
      else
        let n_level_sets = nrow bnds; d = ncol bnds div 2
        in Inr (map (\<lambda>i.
                      let ls_bnds = row bnds i;
                          level_set_test =
                            range_checks x d (\<lambda>d_i. ls_bnds ! d_i) (\<lambda>d_i. ls_bnds ! (d + d_i));
                          ls = which_true level_set_test
                      in \<lparr>points = ls,
                          bounds_attr = (if save_bounds then Some ls_bnds else None)\<rparr>)
                    [0..<n_level_sets]))"

subsection \<open>constructFixedLevelSets and constructRestrainedLevelSets\<close>

record level_set =
  points_in_level_set :: IntegerVector
  bounds :: "real Matrix"

text \<open>
  \<^verbatim>\<open>ls_bnds(0, _) = v\<close> and \<^verbatim>\<open>ls_bnds(1, _) = w\<close> on the \<open>2 \<times> d\<close> matrix \<open>ls_bnds\<close>: each row
  assignment copies the first \<open>d\<close> entries of its right-hand side.

  Neither function compares the dimensions of its arguments. \<^verbatim>\<open>filter_range(0, _)\<close> throws
  for a matrix without rows, and \<^verbatim>\<open>filter_values.column(d_i)\<close> throws in the first
  iteration of the loop over the bins when \<open>filter_values\<close> has fewer than \<open>d\<close> columns.
\<close>

definition bounds_matrix :: "nat \<Rightarrow> NumericVector \<Rightarrow> NumericVector \<Rightarrow> real Matrix" where
  "bounds_matrix d v w =
     \<lparr>ncol = d, rows = [map (\<lambda>k. v ! k) [0..<d], map (\<lambda>k. w ! k) [0..<d]]\<rparr>"

definition constructFixedLevelSets ::
  "real Matrix \<Rightarrow> int Matrix \<Rightarrow> NumericVector \<Rightarrow> IntegerVector \<Rightarrow> real Matrix \<Rightarrow> NumericVector
   \<Rightarrow> error + level_set list" where
  "constructFixedLevelSets filter_values index_set overlap number_intervals filter_range filter_len =
     (let n = nrow index_set; d = ncol index_set;
          base_interval_length = vec_op (/) filter_len (as_NumericVector number_intervals)
      in if nrow filter_range = 0 then Inl IndexOutOfBounds
         else
           let filter_min = row filter_range 0;
               interval_length =
                 vec_op (+) base_interval_length
                   (vec_op (/) (vec_op (*) base_interval_length overlap)
                               (map (\<lambda>v. 1 - v) overlap));
               eps = map (\<lambda>v. v / 2) interval_length
           in if 0 < n \<and> ncol filter_values < d then Inl IndexOutOfBounds
              else
                Inr (map (\<lambda>i.
                       let ls_idx = map (\<lambda>v. v - 1) (row index_set i);
                           level_set_centroid =
                             vec_op (+)
                               (vec_op (+) filter_min
                                  (vec_op (*) (as_NumericVector ls_idx) base_interval_length))
                               (map (\<lambda>v. v / 2) base_interval_length);
                           ls_bnds = bounds_matrix d (vec_op (-) level_set_centroid eps)
                                                     (vec_op (+) level_set_centroid eps);
                           level_set_test =
                             range_checks filter_values d (\<lambda>d_i. cell ls_bnds 0 d_i)
                                                          (\<lambda>d_i. cell ls_bnds 1 d_i)
                       in \<lparr>points_in_level_set = which_true level_set_test,
                           bounds = ls_bnds\<rparr>)
                     [0..<n]))"

definition constructRestrainedLevelSets ::
  "real Matrix \<Rightarrow> int Matrix \<Rightarrow> NumericVector \<Rightarrow> NumericVector \<Rightarrow> NumericVector
   \<Rightarrow> error + level_set list" where
  "constructRestrainedLevelSets filter_values index_set interval_length step_size filter_min =
     (let n = nrow index_set; d = ncol index_set
      in if 0 < n \<and> ncol filter_values < d then Inl IndexOutOfBounds
         else
           Inr (map (\<lambda>i.
                  let ls_idx = map (\<lambda>v. v - 1) (row index_set i);
                      level_set_min =
                        vec_op (+) filter_min (vec_op (*) (as_NumericVector ls_idx) step_size);
                      ls_bnds = bounds_matrix d level_set_min
                                                (vec_op (+) level_set_min interval_length);
                      level_set_test =
                        range_checks filter_values d (\<lambda>d_i. cell ls_bnds 0 d_i)
                                                     (\<lambda>d_i. cell ls_bnds 1 d_i)
                  in \<lparr>points_in_level_set = which_true level_set_test, bounds = ls_bnds\<rparr>)
                [0..<n]))"

subsection \<open>createCoverMap\<close>







subsection \<open>edgelist_to_adjacencylist\<close>

text \<open>
  A \<^verbatim>\<open>std::map<int, std::vector<int>>\<close> is the list of its entries in key order; an
  iterator is a position in that list, \<open>length m\<close> being \<^verbatim>\<open>end()\<close>. \<open>lower_bound\<close> is the
  position of the first entry whose key is not less than the given one, and
  \<^verbatim>\<open>emplace_hint\<close> of an absent key puts the new entry at its place in the order, which is
  that position.
\<close>

type_synonym vertex_map = "(int \<times> int list) list"

fun lower_bound :: "vertex_map \<Rightarrow> int \<Rightarrow> nat" where
  "lower_bound [] key = 0"
| "lower_bound ((k, v) # m) key = (if k < key then Suc (lower_bound m key) else 0)"

definition add_edge :: "int \<Rightarrow> int \<Rightarrow> vertex_map \<Rightarrow> vertex_map" where
  "add_edge from to vertex_map =
     (let it = lower_bound vertex_map from
      in if it \<noteq> length vertex_map \<and> fst (vertex_map ! it) = from
         then vertex_map[it := (from, snd (vertex_map ! it) @ [to])]
         else take it vertex_map @ [(from, [to])] @ drop it vertex_map)"

definition edgelist_to_adjacencylist :: "int Matrix \<Rightarrow> vertex_map" where
  "edgelist_to_adjacencylist el =
     (let n = nrow el
      in fold (\<lambda>i vertex_map. add_edge (cell el i 0) (cell el i 1) vertex_map) [0..<n] [])"

subsection \<open>dist_to_boxes\<close>

text \<open>\<^verbatim>\<open>std::set_difference\<close> on two sorted ranges.\<close>

fun set_difference :: "int list \<Rightarrow> int list \<Rightarrow> int list" where
  "set_difference [] ys = []"
| "set_difference (x # xs) [] = x # xs"
| "set_difference (x # xs) (y # ys) =
     (if x < y then x # set_difference xs (y # ys)
      else if y < x then set_difference (x # xs) ys
      else set_difference xs ys)"

record box_distances =
  target_pos :: "int Matrix"
  target_dist :: "real Matrix"

text \<open>
  The lambda of the \<^verbatim>\<open>std::transform\<close> call: the subtraction is on ints, the product and
  the absolute value on doubles.
\<close>

definition target_distance :: "real \<Rightarrow> int \<Rightarrow> real \<Rightarrow> real \<Rightarrow> int \<Rightarrow> real" where
  "target_distance interval_length pos dtl dtu target_position =
     (let offset = \<bar>real_of_int (target_position - pos - 1) * interval_length\<bar>
      in if target_position < pos then dtl + offset else dtu + offset)"

text \<open>
  The vectors \<open>target_positions\<close> and \<open>target_distances\<close> are allocated with
  \<open>num_intervals - 1\<close> entries, which fails for \<open>num_intervals < 1\<close>. When a position is
  not among \<open>1, \<dots>, num_intervals\<close> the set difference has \<open>num_intervals\<close> elements and
  \<^verbatim>\<open>std::set_difference\<close> writes past the end of \<open>target_positions\<close>; the model stops with
  \<open>BufferOverrun\<close> there.
\<close>

fun dist_rows ::
  "int list \<Rightarrow> real \<Rightarrow> int list \<Rightarrow> NumericVector \<Rightarrow> NumericVector \<Rightarrow> nat \<Rightarrow> nat list
   \<Rightarrow> error + (int list list \<times> real list list)" where
  "dist_rows all_positions interval_length positions dist_to_lower dist_to_upper width [] =
     Inr ([], [])"
| "dist_rows all_positions interval_length positions dist_to_lower dist_to_upper width (i # is) =
     (let pos = positions ! i; dtl = dist_to_lower ! i; dtu = dist_to_upper ! i;
          target_positions = set_difference all_positions [pos]
      in if length target_positions \<noteq> width then Inl BufferOverrun
         else
           let target_distances =
                 map (target_distance interval_length pos dtl dtu) target_positions
           in case dist_rows all_positions interval_length positions dist_to_lower dist_to_upper
                     width is of
                Inl e \<Rightarrow> Inl e
              | Inr (res_pos, res_dist) \<Rightarrow>
                  Inr (target_positions # res_pos, target_distances # res_dist))"

definition dist_to_boxes ::
  "IntegerVector \<Rightarrow> real \<Rightarrow> int \<Rightarrow> NumericVector \<Rightarrow> NumericVector \<Rightarrow> error + box_distances" where
  "dist_to_boxes positions interval_length num_intervals dist_to_lower dist_to_upper =
     (if num_intervals < 1 then Inl NegativeLength
      else
        let all_positions = [1..num_intervals];
            n = length positions;
            width = nat (num_intervals - 1)
        in case dist_rows all_positions interval_length positions dist_to_lower dist_to_upper
                  width [0..<n] of
             Inl e \<Rightarrow> Inl e
           | Inr (res_pos, res_dist) \<Rightarrow>
               Inr \<lparr>target_pos = \<lparr>ncol = width, rows = res_pos\<rparr>,
                    target_dist = \<lparr>ncol = width, rows = res_dist\<rparr>\<rparr>)"

text \<open>
  The edge list as the sequence of its rows, and the destinations a map holds for a key
  (none for an absent key).
\<close>

definition edges :: "int Matrix \<Rightarrow> (int \<times> int) list" where
  "edges el = map (\<lambda>i. (cell el i 0, cell el i 1)) [0..<nrow el]"

definition dests :: "vertex_map \<Rightarrow> int \<Rightarrow> int list" where
  "dests m k = (case map_of m k of None \<Rightarrow> [] | Some v \<Rightarrow> v)"

subsection \<open>Containment tests and loop prefixes used in the statements\<close>



text \<open>The inclusive test without any tolerance.\<close>

definition within_box :: "real Matrix \<Rightarrow> real Matrix \<Rightarrow> nat \<Rightarrow> nat \<Rightarrow> bool" where
  "within_box x bnds i p =
     list_all (\<lambda>k. cell bnds i k \<le> cell x p k \<and> cell x p k \<le> cell bnds i (ncol bnds div 2 + k))
              [0..<ncol bnds div 2]"


section \<open>Proofs\<close>




subsection \<open>valid_pairs: the dense edge list\<close>





subsection \<open>dist_to_boxes on the specification's example\<close>

text \<open>
  Claim C6. For the single point with \<open>pos = 2\<close>, \<open>interval_length = 1\<close>,
  \<open>num_intervals = 4\<close>, \<open>dist_to_lower = 0.2\<close> and \<open>dist_to_upper = 0.3\<close> the function
  returns the target positions \<open>[1, 3, 4]\<close> and the distances \<open>[2.2, 0.3, 1.3]\<close>: for the
  target below the point's bin the offset is \<open>\<bar>1 - 2 - 1\<bar> * 1 = 2\<close>, so the first distance
  is \<open>2.2\<close> and not the \<open>0.2\<close> that separates the point from the adjacent bin 1.
\<close>

theorem dist_to_boxes_example:
  "dist_to_boxes [2] 1 4 [2 / 10] [3 / 10]
     = Inr \<lparr>target_pos = \<lparr>ncol = 3, rows = [[1, 3, 4]]\<rparr>,
            target_dist = \<lparr>ncol = 3, rows = [[22 / 10, 3 / 10, 13 / 10]]\<rparr>\<rparr>"
proof -
  have all_positions: "[1..4::int] = [1, 2, 3, 4]"
    by code_simp
  show ?thesis
    by (simp add: dist_to_boxes_def target_distance_def all_positions Let_def)
qed

subsection \<open>edgelist_to_adjacencylist: the adjacency list\<close>

lemma add_edge_Nil: "add_edge f t [] = [(f, [t])]"
  by (simp add: add_edge_def)

lemma add_edge_Cons:
  "add_edge f t ((k, v) # m) =
     (if k < f then (k, v) # add_edge f t m
      else if k = f then (k, v @ [t]) # m
      else (f, [t]) # (k, v) # m)"
  by (simp add: add_edge_def Let_def)

lemma keys_add_edge: "fst ` set (add_edge f t m) = insert f (fst ` set m)"
proof (induction m)
  case Nil
  show ?case by (simp add: add_edge_Nil)
next
  case (Cons e m)
  obtain k v where e: "e = (k, v)" by (cases e)
  show ?case
    unfolding e add_edge_Cons using Cons.IH by (simp add: insert_commute)
qed

lemma sorted_add_edge:
  "sorted_wrt (<) (map fst m) \<Longrightarrow> sorted_wrt (<) (map fst (add_edge f t m))"
proof (induction m)
  case Nil
  show ?case by (simp add: add_edge_Nil)
next
  case (Cons e m)
  obtain k v where e: "e = (k, v)" by (cases e)
  have "\<forall>x \<in> fst ` set (add_edge f t m). k < x" if "k < f"
    using that Cons.prems by (auto simp: keys_add_edge e)
  then show ?case
    using Cons by (auto simp: e add_edge_Cons)
qed

lemma dests_add_edge:
  "sorted_wrt (<) (map fst m) \<Longrightarrow>
   dests (add_edge f t m) k = (if k = f then dests m f @ [t] else dests m k)"
proof (induction m)
  case Nil
  show ?case by (simp add: add_edge_Nil dests_def)
next
  case (Cons e m)
  obtain k' v where e: "e = (k', v)" by (cases e)
  have absent: "map_of m f = None" if "f \<le> k'"
  proof -
    have "f \<notin> fst ` set m" using that Cons.prems by (auto simp: e)
    then show ?thesis by (simp add: map_of_eq_None_iff)
  qed
  from Cons show ?case
    using absent by (auto simp: e add_edge_Cons dests_def)
qed

lemma fold_add_edge:
  assumes "sorted_wrt (<) (map fst m)"
  shows "sorted_wrt (<) (map fst (fold (\<lambda>(f, t). add_edge f t) es m))
       \<and> fst ` set (fold (\<lambda>(f, t). add_edge f t) es m) = fst ` set m \<union> fst ` set es
       \<and> (\<forall>k. dests (fold (\<lambda>(f, t). add_edge f t) es m) k
               = dests m k @ map snd (filter (\<lambda>e. fst e = k) es))"
  using assms
proof (induction es arbitrary: m)
  case Nil
  then show ?case by simp
next
  case (Cons e es)
  obtain f t where e: "e = (f, t)" by (cases e)
  have s: "sorted_wrt (<) (map fst (add_edge f t m))"
    using Cons.prems by (rule sorted_add_edge)
  show ?case
    using Cons.IH [OF s] Cons.prems
    by (auto simp: e keys_add_edge dests_add_edge)
qed

lemma edgelist_to_adjacencylist_edges:
  "edgelist_to_adjacencylist el = fold (\<lambda>(f, t). add_edge f t) (edges el) []"
  by (simp add: edgelist_to_adjacencylist_def edges_def fold_map comp_def)

text \<open>
  Claim C8. The keys of the returned map are exactly the source ids of the edge list, in
  strictly ascending order (so each once); every entry maps its source to the
  destinations of that source's edges, in edge-list order, and that list is never empty.
  The edge list \<open>[(1,2),(1,3),(2,3)]\<close> gives \<open>{1: [2,3], 2: [3]}\<close>.
\<close>

theorem edgelist_to_adjacencylist_spec:
  "sorted_wrt (<) (map fst (edgelist_to_adjacencylist el))
   \<and> set (map fst (edgelist_to_adjacencylist el)) = set (map fst (edges el))
   \<and> (\<forall>(k, v) \<in> set (edgelist_to_adjacencylist el).
         v = map snd (filter (\<lambda>e. fst e = k) (edges el)) \<and> v \<noteq> [])
   \<and> edgelist_to_adjacencylist \<lparr>ncol = 2, rows = [[1, 2], [1, 3], [2, 3]]\<rparr>
       = [(1, [2, 3]), (2, [3])]"
proof -
  let ?adj = "edgelist_to_adjacencylist el"
  have inv: "sorted_wrt (<) (map fst ?adj)" "fst ` set ?adj = fst ` set (edges el)"
    "\<And>k. dests ?adj k = map snd (filter (\<lambda>e. fst e = k) (edges el))"
    using fold_add_edge [of "[]" "edges el"]
    by (simp_all add: edgelist_to_adjacencylist_edges dests_def)
  have dist: "distinct (map fst ?adj)"
    using inv(1) by (simp add: strict_sorted_iff)
  have entry: "v = map snd (filter (\<lambda>e. fst e = k) (edges el)) \<and> v \<noteq> []" if "(k, v) \<in> set ?adj" for k v
  proof -
    have "map_of ?adj k = Some v" using dist that by simp
    then have v: "v = map snd (filter (\<lambda>e. fst e = k) (edges el))"
      using inv(3) [of k] by (simp add: dests_def)
    have "k \<in> fst ` set (edges el)" using that inv(2) by force
    then have "filter (\<lambda>e. fst e = k) (edges el) \<noteq> []"
      by (auto simp: filter_empty_conv)
    then show ?thesis using v by simp
  qed
  have ex: "edgelist_to_adjacencylist \<lparr>ncol = 2, rows = [[1, 2], [1, 3], [2, 3]]\<rparr>
       = [(1, [2, 3]), (2, [3])]"
    by (simp add: edgelist_to_adjacencylist_def nrow_def cell_def row_def upt_rec add_edge_def)
  show ?thesis using inv(1,2) entry ex by auto
qed

theorem edgelist_to_adjacencylist_spec_witness:
  "map fst (edgelist_to_adjacencylist \<lparr>ncol = 2, rows = [[3, 2], [1, 3], [2, 3], [3, 7], [1, 1]]\<rparr>) = [1, 2, 3]
   \<and> edgelist_to_adjacencylist \<lparr>ncol = 2, rows = [[3, 2], [1, 3], [2, 3], [3, 7], [1, 1]]\<rparr>
       = [(1, [3, 1]), (2, [3]), (3, [2, 7])]"
  using edgelist_to_adjacencylist_spec [of "\<lparr>ncol = 2, rows = [[3, 2], [1, 3], [2, 3], [3, 7], [1, 1]]\<rparr>"]
  by (simp add: edgelist_to_adjacencylist_def nrow_def cell_def row_def upt_rec add_edge_def)

subsection \<open>The range checks and which_true\<close>

lemma length_vec_op: "length (vec_op f a b) = length a"
  by (simp add: vec_op_def)

lemma nth_vec_op: "k < length a \<Longrightarrow> vec_op f a b ! k = f (a ! k) (b ! k)"
  by (simp add: vec_op_def)

lemma length_column: "length (column x j) = nrow x"
  by (simp add: column_def)

lemma nth_column: "p < nrow x \<Longrightarrow> column x j ! p = cell x p j"
  by (simp add: column_def)

lemma range_checks_Suc:
  "range_checks x (Suc d) lo hi =
     vec_op (\<and>) (range_checks x d lo hi)
       (vec_op (\<and>) (map (\<lambda>v. v \<ge> lo d) (column x d)) (map (\<lambda>v. v \<le> hi d) (column x d)))"
  by (simp add: range_checks_def)

lemma length_range_checks: "length (range_checks x d lo hi) = nrow x"
  by (induction d) (simp_all add: range_checks_Suc length_vec_op, simp add: range_checks_def)

lemma nth_range_checks:
  "p < nrow x \<Longrightarrow>
   range_checks x d lo hi ! p = (\<forall>k < d. lo k \<le> cell x p k \<and> cell x p k \<le> hi k)"
proof (induction d)
  case 0
  then show ?case by (simp add: range_checks_def)
next
  case (Suc d)
  then show ?case
    by (auto simp: range_checks_Suc nth_vec_op length_range_checks length_column nth_column
                   less_Suc_eq)
qed

lemma fold_push_back:
  "fold (\<lambda>i y. if P i then y @ [g i] else y) js y = y @ map g (filter P js)"
  by (induction js arbitrary: y) simp_all

lemma which_true_eq:
  "which_true x = map (\<lambda>i. int i + 1) (filter (\<lambda>i. x ! i) [0..<length x])"
  by (simp add: which_true_def fold_push_back)

lemma sorted_which_true: "sorted_wrt (<) (which_true x)"
proof -
  have "sorted_wrt (<) (filter (\<lambda>i. x ! i) [0..<length x])"
    by (rule sorted_wrt_filter) (rule sorted_wrt_upt)
  then have "sorted_wrt (\<lambda>i j. int i + 1 < int j + 1) (filter (\<lambda>i. x ! i) [0..<length x])"
    by (rule sorted_wrt_mono_rel [rotated]) simp
  then show ?thesis
    unfolding which_true_eq sorted_wrt_map .
qed

lemma set_which_true: "set (which_true x) = {int i + 1 | i. i < length x \<and> x ! i}"
  by (auto simp: which_true_eq)

lemma which_true_bounds: "v \<in> set (which_true x) \<Longrightarrow> 1 \<le> v \<and> v \<le> int (length x)"
  by (auto simp: set_which_true)

subsection \<open>constructLevelSetIndex: the disjoint index\<close>














subsection \<open>Membership lists of the overlapping covers\<close>

lemma within_box_iff:
  "within_box x bnds i p
     = (\<forall>k < ncol bnds div 2. cell bnds i k \<le> cell x p k
                             \<and> cell x p k \<le> cell bnds i (ncol bnds div 2 + k))"
  by (auto simp: within_box_def list_all_iff)

lemma which_true_member:
  "(int p + 1 \<in> set (which_true t)) = (p < length t \<and> t ! p)"
  by (auto simp: set_which_true)

text \<open>
  Claim C9. For matching dimensions \<open>constructIsoAlignedLevelSets\<close> returns one list per
  row of the bounds matrix, and the 1-based position \<open>p + 1\<close> is in list \<open>i\<close> if and only
  if \<open>p\<close> is a point and, in every dimension, its coordinate lies between the lower and
  the upper bound of box \<open>i\<close>, both inclusive and without tolerance. The contrast with
  the disjoint path: the point \<open>1 + DBL_EPSILON\<close> is outside the box \<open>[0, 1]\<close> here, while
  \<open>constructLevelSetIndex\<close> assigns it to that box.
\<close>

theorem constructIsoAlignedLevelSets_membership:
  assumes "ncol x = ncol bnds div 2"
  shows "\<exists>ls. constructIsoAlignedLevelSets x bnds save_bounds = Inr ls \<and> length ls = nrow bnds
           \<and> (\<forall>i < nrow bnds. \<forall>p.
                 (int p + 1 \<in> set (points (ls ! i))) = (p < nrow x \<and> within_box x bnds i p))
           \<and> (\<forall>i < nrow bnds. \<forall>v \<in> set (points (ls ! i)). 1 \<le> v \<and> v \<le> int (nrow x))
           \<and> constructIsoAlignedLevelSets \<lparr>ncol = 1, rows = [[1 + DBL_EPSILON]]\<rparr>
                \<lparr>ncol = 2, rows = [[0, 1]]\<rparr> False = Inr [\<lparr>points = [], bounds_attr = None\<rparr>]
           \<and> constructLevelSetIndex \<lparr>ncol = 1, rows = [[1 + DBL_EPSILON]]\<rparr>
                \<lparr>ncol = 2, rows = [[0, 1]]\<rparr> = Inr [1]"
proof -
  let ?t = "\<lambda>i. range_checks x (ncol bnds div 2) (\<lambda>d_i. row bnds i ! d_i)
                   (\<lambda>d_i. row bnds i ! (ncol bnds div 2 + d_i))"
  let ?ls = "map (\<lambda>i. \<lparr>points = which_true (?t i),
                        bounds_attr = (if save_bounds then Some (row bnds i) else None)\<rparr>)
                 [0..<nrow bnds]"
  have res: "constructIsoAlignedLevelSets x bnds save_bounds = Inr ?ls"
    using assms by (simp add: constructIsoAlignedLevelSets_def Let_def)
  have mem: "(int p + 1 \<in> set (points (?ls ! i))) = (p < nrow x \<and> within_box x bnds i p)"
    if "i < nrow bnds" for i p
  proof (cases "p < nrow x")
    case True
    then show ?thesis
      using that
      by (simp add: which_true_member length_range_checks nth_range_checks within_box_iff cell_def)
  next
    case False
    then show ?thesis
      using that by (simp add: which_true_member length_range_checks)
  qed
  have rng: "1 \<le> v \<and> v \<le> int (nrow x)" if "i < nrow bnds" "v \<in> set (points (?ls ! i))" for i v
    using that which_true_bounds [of v "?t i"] by (simp add: length_range_checks)
  have contrast:
    "constructIsoAlignedLevelSets \<lparr>ncol = 1, rows = [[1 + DBL_EPSILON]]\<rparr>
       \<lparr>ncol = 2, rows = [[0, 1]]\<rparr> False = Inr [\<lparr>points = [], bounds_attr = None\<rparr>]"
    "constructLevelSetIndex \<lparr>ncol = 1, rows = [[1 + DBL_EPSILON]]\<rparr>
       \<lparr>ncol = 2, rows = [[0, 1]]\<rparr> = Inr [1]"
    by (simp_all add: constructIsoAlignedLevelSets_def constructLevelSetIndex_def range_checks_def
                vec_op_def column_def cell_def row_def nrow_def assign_where_def which_true_def
                DBL_EPSILON_def)
  show ?thesis
    using res mem rng contrast by (intro exI [of _ ?ls]) simp
qed

theorem constructIsoAlignedLevelSets_membership_witness:
  "ncol \<lparr>ncol = 1, rows = [[0], [1], [1 + DBL_EPSILON], [2 :: real]]\<rparr>
     = ncol \<lparr>ncol = 2, rows = [[0, 1 :: real]]\<rparr> div 2
   \<and> (0 :: nat) < nrow \<lparr>ncol = 2, rows = [[0, 1 :: real]]\<rparr>
   \<and> constructIsoAlignedLevelSets \<lparr>ncol = 1, rows = [[0], [1], [1 + DBL_EPSILON], [2]]\<rparr>
        \<lparr>ncol = 2, rows = [[0, 1]]\<rparr> True
       = Inr [\<lparr>points = [1, 2], bounds_attr = Some [0, 1]\<rparr>]
   \<and> constructLevelSetIndex \<lparr>ncol = 1, rows = [[0], [1], [1 + DBL_EPSILON], [2]]\<rparr>
        \<lparr>ncol = 2, rows = [[0, 1]]\<rparr> = Inr [1, 1, 1, - 1]"
  using constructIsoAlignedLevelSets_membership
          [of "\<lparr>ncol = 1, rows = [[0], [1], [1 + DBL_EPSILON], [2]]\<rparr>"
              "\<lparr>ncol = 2, rows = [[0, 1]]\<rparr>" True]
  by (simp add: constructIsoAlignedLevelSets_def constructLevelSetIndex_def range_checks_def
                vec_op_def column_def cell_def row_def nrow_def assign_where_def which_true_def
                DBL_EPSILON_def upt_rec)

lemma constructFixedLevelSets_returns:
  "(\<exists>ls. constructFixedLevelSets filter_values index_set overlap number_intervals filter_range
           filter_len = Inr ls)
     = (0 < nrow filter_range \<and> (nrow index_set = 0 \<or> ncol index_set \<le> ncol filter_values))"
  by (auto simp: constructFixedLevelSets_def Let_def)

lemma constructRestrainedLevelSets_returns:
  "(\<exists>ls. constructRestrainedLevelSets filter_values index_set interval_length step_size
           filter_min = Inr ls)
     = (nrow index_set = 0 \<or> ncol index_set \<le> ncol filter_values)"
  by (auto simp: constructRestrainedLevelSets_def Let_def)

text \<open>
  Claim C10. Every list of point positions returned by \<open>constructIsoAlignedLevelSets\<close>,
  \<open>constructFixedLevelSets\<close> and \<open>constructRestrainedLevelSets\<close> is strictly increasing
  (so sorted and without duplicates) and holds 1-based positions, between 1 and the
  number of points. The three functions return exactly when the dimensions of their
  arguments allow the views they make.
\<close>

theorem level_set_points_strictly_increasing:
  "(\<forall>ls. constructIsoAlignedLevelSets x bnds save_bounds = Inr ls \<longrightarrow>
         (\<forall>l \<in> set ls. sorted_wrt (<) (points l)
                        \<and> (\<forall>v \<in> set (points l). 1 \<le> v \<and> v \<le> int (nrow x))))
   \<and> (\<forall>ls. constructFixedLevelSets filter_values index_set overlap number_intervals
              filter_range filter_len = Inr ls \<longrightarrow>
         (\<forall>l \<in> set ls. sorted_wrt (<) (points_in_level_set l)
            \<and> (\<forall>v \<in> set (points_in_level_set l). 1 \<le> v \<and> v \<le> int (nrow filter_values))))
   \<and> (\<forall>ls. constructRestrainedLevelSets filter_values index_set interval_length
              step_size filter_min = Inr ls \<longrightarrow>
         (\<forall>l \<in> set ls. sorted_wrt (<) (points_in_level_set l)
            \<and> (\<forall>v \<in> set (points_in_level_set l). 1 \<le> v \<and> v \<le> int (nrow filter_values))))
   \<and> (\<exists>ls. constructIsoAlignedLevelSets x bnds save_bounds = Inr ls)
       = (ncol x = ncol bnds div 2)
   \<and> (\<exists>ls. constructFixedLevelSets filter_values index_set overlap number_intervals
              filter_range filter_len = Inr ls)
       = (0 < nrow filter_range \<and> (nrow index_set = 0 \<or> ncol index_set \<le> ncol filter_values))
   \<and> (\<exists>ls. constructRestrainedLevelSets filter_values index_set interval_length
              step_size filter_min = Inr ls)
       = (nrow index_set = 0 \<or> ncol index_set \<le> ncol filter_values)"
proof -
  have wt: "sorted_wrt (<) (which_true (range_checks y d lo hi))
            \<and> (\<forall>v \<in> set (which_true (range_checks y d lo hi)). 1 \<le> v \<and> v \<le> int (nrow y))"
    for y d lo hi
    using sorted_which_true [of "range_checks y d lo hi"]
          which_true_bounds [of _ "range_checks y d lo hi"]
    by (simp add: length_range_checks)
  have iso: "\<forall>ls. constructIsoAlignedLevelSets x bnds save_bounds = Inr ls \<longrightarrow>
         (\<forall>l \<in> set ls. sorted_wrt (<) (points l)
                        \<and> (\<forall>v \<in> set (points l). 1 \<le> v \<and> v \<le> int (nrow x)))"
    using wt by (auto simp: constructIsoAlignedLevelSets_def Let_def split: if_splits)
  have fixed: "\<forall>ls. constructFixedLevelSets filter_values index_set overlap number_intervals
              filter_range filter_len = Inr ls \<longrightarrow>
         (\<forall>l \<in> set ls. sorted_wrt (<) (points_in_level_set l)
            \<and> (\<forall>v \<in> set (points_in_level_set l). 1 \<le> v \<and> v \<le> int (nrow filter_values)))"
    using wt by (auto simp: constructFixedLevelSets_def Let_def split: if_splits)
  have restrained: "\<forall>ls. constructRestrainedLevelSets filter_values index_set interval_length
              step_size filter_min = Inr ls \<longrightarrow>
         (\<forall>l \<in> set ls. sorted_wrt (<) (points_in_level_set l)
            \<and> (\<forall>v \<in> set (points_in_level_set l). 1 \<le> v \<and> v \<le> int (nrow filter_values)))"
    using wt by (auto simp: constructRestrainedLevelSets_def Let_def split: if_splits)
  have iso_returns: "(\<exists>ls. constructIsoAlignedLevelSets x bnds save_bounds = Inr ls)
       = (ncol x = ncol bnds div 2)"
    by (simp add: constructIsoAlignedLevelSets_def Let_def)
  show ?thesis
    using iso fixed restrained iso_returns
          constructFixedLevelSets_returns [of filter_values index_set overlap number_intervals
            filter_range filter_len]
          constructRestrainedLevelSets_returns [of filter_values index_set interval_length
            step_size filter_min]
    by blast
qed

theorem level_set_points_strictly_increasing_witness:
  "constructIsoAlignedLevelSets \<lparr>ncol = 1, rows = [[0], [2], [17 / 4]]\<rparr>
     \<lparr>ncol = 2, rows = [[- 1, 3], [1, 5]]\<rparr> True
     = Inr [\<lparr>points = [1, 2], bounds_attr = Some [- 1, 3]\<rparr>,
            \<lparr>points = [2, 3], bounds_attr = Some [1, 5]\<rparr>]
   \<and> map_sum id (map points_in_level_set)
         (constructFixedLevelSets \<lparr>ncol = 1, rows = [[0], [2], [17 / 4]]\<rparr>
            \<lparr>ncol = 1, rows = [[1], [2]]\<rparr> [1 / 2] [2] \<lparr>ncol = 1, rows = [[0], [4]]\<rparr> [4])
       = Inr [[1, 2], [2, 3]]
   \<and> map_sum id (map points_in_level_set)
         (constructRestrainedLevelSets \<lparr>ncol = 1, rows = [[0], [2], [17 / 4]]\<rparr>
            \<lparr>ncol = 1, rows = [[1], [2]]\<rparr> [5 / 2] [2] [0])
       = Inr [[1, 2], [2, 3]]
   \<and> sorted_wrt (<) [1, 2 :: int] \<and> sorted_wrt (<) [2, 3 :: int]"
proof -
  have iso: "constructIsoAlignedLevelSets \<lparr>ncol = 1, rows = [[0], [2], [17 / 4]]\<rparr>
     \<lparr>ncol = 2, rows = [[- 1, 3], [1, 5]]\<rparr> True
     = Inr [\<lparr>points = [1, 2], bounds_attr = Some [- 1, 3]\<rparr>,
            \<lparr>points = [2, 3], bounds_attr = Some [1, 5]\<rparr>]"
    by code_simp
  have fixed: "map_sum id (map points_in_level_set)
         (constructFixedLevelSets \<lparr>ncol = 1, rows = [[0], [2], [17 / 4]]\<rparr>
            \<lparr>ncol = 1, rows = [[1], [2]]\<rparr> [1 / 2] [2] \<lparr>ncol = 1, rows = [[0], [4]]\<rparr> [4])
       = Inr [[1, 2], [2, 3]]"
    by code_simp
  have restrained: "map_sum id (map points_in_level_set)
         (constructRestrainedLevelSets \<lparr>ncol = 1, rows = [[0], [2], [17 / 4]]\<rparr>
            \<lparr>ncol = 1, rows = [[1], [2]]\<rparr> [5 / 2] [2] [0])
       = Inr [[1, 2], [2, 3]]"
    by code_simp
  show ?thesis
    using level_set_points_strictly_increasing
          [of "\<lparr>ncol = 1, rows = [[0], [2], [17 / 4]]\<rparr>" "\<lparr>ncol = 2, rows = [[- 1, 3], [1, 5]]\<rparr>" True
              "\<lparr>ncol = 1, rows = [[0], [2], [17 / 4]]\<rparr>" "\<lparr>ncol = 1, rows = [[1], [2]]\<rparr>"
              "[1 / 2]" "[2]" "\<lparr>ncol = 1, rows = [[0], [4]]\<rparr>" "[4]" "[5 / 2]" "[2]" "[0]"]
          iso fixed restrained
    by simp
qed

subsection \<open>constructFixedLevelSets: the bounds of the fixed grid\<close>

lemma cell_bounds_matrix:
  "k < d \<Longrightarrow> cell (bounds_matrix d v w) 0 k = v ! k \<and> cell (bounds_matrix d v w) (Suc 0) k = w ! k"
  by (simp add: bounds_matrix_def cell_def row_def)

lemma fixed_bounds_cells:
  assumes "constructFixedLevelSets filter_values index_set overlap number_intervals filter_range
             filter_len = Inr ls"
    and "i < nrow index_set" and "k < ncol index_set"
    and "length (row index_set i) = ncol index_set"
    and "length overlap = ncol index_set"
    and "length number_intervals = ncol index_set"
    and "length filter_len = ncol index_set"
    and "length (row filter_range 0) = ncol index_set"
  shows "cell (bounds (ls ! i)) 0 k
         = (cell filter_range 0 k
             + real_of_int (cell index_set i k - 1) * (filter_len ! k / real_of_int (number_intervals ! k))
             + filter_len ! k / real_of_int (number_intervals ! k) / 2)
           - (filter_len ! k / real_of_int (number_intervals ! k)
               + filter_len ! k / real_of_int (number_intervals ! k) * (overlap ! k) / (1 - overlap ! k)) / 2"
    and "cell (bounds (ls ! i)) 1 k
         = (cell filter_range 0 k
             + real_of_int (cell index_set i k - 1) * (filter_len ! k / real_of_int (number_intervals ! k))
             + filter_len ! k / real_of_int (number_intervals ! k) / 2)
           + (filter_len ! k / real_of_int (number_intervals ! k)
               + filter_len ! k / real_of_int (number_intervals ! k) * (overlap ! k) / (1 - overlap ! k)) / 2"
    and "length ls = nrow index_set"
  using assms
  by (auto simp: constructFixedLevelSets_def Let_def cell_bounds_matrix nth_vec_op length_vec_op
                 as_NumericVector_def cell_def [of index_set] cell_def [of filter_range]
           split: if_splits)




text \<open>
  Claim C2, as stated, fails: with \<open>overlap = 0.5\<close>, \<open>filterLen = 4\<close> and two intervals
  (\<open>baseLength = 2\<close>) the bins at the grid coordinates 1 and 2 are \<open>[-1, 3]\<close> and \<open>[1, 5]\<close>.
  They overlap by 2, while \<open>overlap * baseLength\<close> is 1.
\<close>

theorem adjacent_overlap_counterexample:
  "map_sum id (\<lambda>ls. cell (bounds (ls ! 0)) 1 0 - cell (bounds (ls ! 1)) 0 0)
     (constructFixedLevelSets \<lparr>ncol = 1, rows = [[0], [2], [17 / 4]]\<rparr>
        \<lparr>ncol = 1, rows = [[1], [2]]\<rparr> [1 / 2] [2] \<lparr>ncol = 1, rows = [[0], [4]]\<rparr> [4])
     = Inr 2
   \<and> (1 / 2) * (4 / real_of_int 2) = (1 :: real)"
proof -
  have "map_sum id (\<lambda>ls. cell (bounds (ls ! 0)) 1 0 - cell (bounds (ls ! 1)) 0 0)
     (constructFixedLevelSets \<lparr>ncol = 1, rows = [[0], [2], [17 / 4]]\<rparr>
        \<lparr>ncol = 1, rows = [[1], [2]]\<rparr> [1 / 2] [2] \<lparr>ncol = 1, rows = [[0], [4]]\<rparr> [4])
     = Inr 2"
    by code_simp
  then show ?thesis by simp
qed

text \<open>
  Claim C2, amended. For an overlap in \<open>[0, 1)\<close> and two requested bins whose grid
  coordinates in dimension \<open>k\<close> differ by exactly 1, the upper bound of the lower bin
  exceeds the lower bound of the upper bin by \<open>overlap * baseLength / (1 - overlap)\<close>,
  which is the fraction \<open>overlap\<close> of the length of a bin (not of \<open>baseLength\<close>).
\<close>

theorem adjacent_overlap_width:
  assumes "0 < nrow filter_range" and "ncol index_set \<le> ncol filter_values"
    and "i < nrow index_set" and "i' < nrow index_set" and "k < ncol index_set"
    and "length (row index_set i) = ncol index_set"
    and "length (row index_set i') = ncol index_set"
    and "length overlap = ncol index_set"
    and "length number_intervals = ncol index_set"
    and "length filter_len = ncol index_set"
    and "length (row filter_range 0) = ncol index_set"
    and "cell index_set i' k = cell index_set i k + 1"
    and "0 \<le> overlap ! k" and "overlap ! k < 1" and "0 < number_intervals ! k"
  shows "\<exists>ls. constructFixedLevelSets filter_values index_set overlap number_intervals
              filter_range filter_len = Inr ls
           \<and> (let baseLength = filter_len ! k / real_of_int (number_intervals ! k);
                   lower_box = bounds (ls ! i);
                   upper_box = bounds (ls ! i')
               in cell lower_box 1 k - cell upper_box 0 k
                    = overlap ! k * baseLength / (1 - overlap ! k)
                \<and> cell lower_box 1 k - cell upper_box 0 k
                    = overlap ! k * (cell lower_box 1 k - cell lower_box 0 k))"
proof -
  obtain ls where ls: "constructFixedLevelSets filter_values index_set overlap number_intervals
               filter_range filter_len = Inr ls"
    using constructFixedLevelSets_returns
            [of filter_values index_set overlap number_intervals filter_range filter_len]
          assms(1,2)
    by blast
  let ?b = "filter_len ! k / real_of_int (number_intervals ! k)"
  let ?o = "overlap ! k"
  note lo = fixed_bounds_cells(1) [OF ls assms(3) assms(5) assms(6) assms(8-11)]
  note hi = fixed_bounds_cells(2) [OF ls assms(3) assms(5) assms(6) assms(8-11)]
  note lo' = fixed_bounds_cells(1) [OF ls assms(4) assms(5) assms(7) assms(8-11)]
  have ne: "1 - ?o \<noteq> 0" using assms(14) by simp
  have "real_of_int (c + 1 - 1) * b = real_of_int (c - 1) * b + b" for c and b :: real
    by (simp add: algebra_simps)
  then have step: "real_of_int (cell index_set i k + 1 - 1) * ?b
                   = real_of_int (cell index_set i k - 1) * ?b + ?b" .
  have width: "cell (bounds (ls ! i)) 1 k - cell (bounds (ls ! i')) 0 k = ?b * ?o / (1 - ?o)"
    unfolding hi lo' assms(12) step by simp
  have len: "cell (bounds (ls ! i)) 1 k - cell (bounds (ls ! i)) 0 k = ?b + ?b * ?o / (1 - ?o)"
    unfolding hi lo by (simp add: algebra_simps)
  have "r * (b + b * r / (1 - r)) = b * r / (1 - r)" if "1 - r \<noteq> 0" for r b :: real
    using that by (simp add: field_simps)
  from this [OF ne] have "?o * (?b + ?b * ?o / (1 - ?o)) = ?b * ?o / (1 - ?o)" .
  then have "(let baseLength = ?b; lower_box = bounds (ls ! i); upper_box = bounds (ls ! i')
              in cell lower_box 1 k - cell upper_box 0 k = ?o * baseLength / (1 - ?o)
               \<and> cell lower_box 1 k - cell upper_box 0 k
                   = ?o * (cell lower_box 1 k - cell lower_box 0 k))"
    unfolding Let_def using width len by (simp add: mult.commute)
  then show ?thesis using ls by blast
qed

theorem adjacent_overlap_width_witness:
  "(0 :: nat) < nrow \<lparr>ncol = 1, rows = [[0], [4 :: real]]\<rparr>
   \<and> ncol \<lparr>ncol = 1, rows = [[1], [2 :: int]]\<rparr> \<le> ncol \<lparr>ncol = 1, rows = [[0], [2], [17 / 4 :: real]]\<rparr>
   \<and> (0 :: nat) < nrow \<lparr>ncol = 1, rows = [[1], [2 :: int]]\<rparr>
   \<and> (1 :: nat) < nrow \<lparr>ncol = 1, rows = [[1], [2 :: int]]\<rparr>
   \<and> cell \<lparr>ncol = 1, rows = [[1], [2 :: int]]\<rparr> 1 0 = cell \<lparr>ncol = 1, rows = [[1], [2]]\<rparr> 0 0 + 1
   \<and> (0 :: real) \<le> [1 / 2] ! 0 \<and> [1 / 2 :: real] ! 0 < 1 \<and> (0 :: int) < [2] ! 0
   \<and> map_sum id (\<lambda>ls. cell (bounds (ls ! 0)) 1 0 - cell (bounds (ls ! 1)) 0 0)
        (constructFixedLevelSets \<lparr>ncol = 1, rows = [[0], [2], [17 / 4]]\<rparr>
           \<lparr>ncol = 1, rows = [[1], [2]]\<rparr> [1 / 2] [2] \<lparr>ncol = 1, rows = [[0], [4]]\<rparr> [4])
       = Inr 2"
  using adjacent_overlap_width
          [of "\<lparr>ncol = 1, rows = [[0], [4]]\<rparr>" "\<lparr>ncol = 1, rows = [[1], [2]]\<rparr>"
              "\<lparr>ncol = 1, rows = [[0], [2], [17 / 4]]\<rparr>" 0 1 0 "[1 / 2]" "[2]" "[4]"]
  by (auto simp: nrow_def row_def cell_def Let_def)

subsection \<open>createCoverMap: the intersecting pairs\<close>














end
